theory Spec2Isabelle
  imports Main
begin

text \<open>
  A model of the feed service: the feed storage over the key-value store
  (\<open>storage.ts\<close>, \<open>mock/redis.ts\<close>), the rate-limiting middleware
  (\<open>middleware/rate-limit.ts\<close>), the renderer (\<open>formatters.ts\<close>, \<open>utils.ts\<close>) and
  the add-item endpoint (\<open>routes.ts\<close>). What the code takes from its environment is
  an argument of the model: the clock reading (\<open>Date.now()\<close>, \<open>new Date()\<close>), the
  identifiers of \<open>uuidv4()\<close>, the libraries for HTML and for syndication formats, and
  what the downstream handler does when \<open>next()\<close> is called.
\<close>

section \<open>JavaScript values\<close>

text \<open>
  The service is duck-typed: request bodies, stored records and parsed items are plain
  JavaScript values. They are modelled by one datatype. Conventions of the model:
  \<^item> a JavaScript string is a \<open>string\<close> over 8-bit characters;
  \<^item> a JavaScript number is an \<open>int\<close> (fractions, NaN and infinities are not values of
    the model; where the source can produce NaN the result is an \<open>int option\<close>);
  \<^item> a \<open>Date\<close> is its time value in milliseconds, or the invalid date;
  \<^item> an object is the list of its own properties in insertion order.
\<close>

datatype jsdate = InvalidDate | Ms int

datatype jsval =
    JUndefined
  | JNull
  | JBool bool
  | JNum int
  | JStr string
  | JDate jsdate
  | JArr "jsval list"
  | JObj "(string \<times> jsval) list"

text \<open>Truthiness, as used by \<open>!x\<close>, \<open>x || y\<close>, \<open>x && y\<close> and \<open>x ? a : b\<close>.\<close>

fun truthy :: "jsval \<Rightarrow> bool" where
  "truthy JUndefined = False"
| "truthy JNull = False"
| "truthy (JBool b) = b"
| "truthy (JNum n) = (n \<noteq> 0)"
| "truthy (JStr s) = (s \<noteq> [])"
| "truthy (JDate d) = True"
| "truthy (JArr xs) = True"
| "truthy (JObj fs) = True"

text \<open>\<open>a || b\<close> on values.\<close>

definition js_or :: "jsval \<Rightarrow> jsval \<Rightarrow> jsval" where
  "js_or a b = (if truthy a then a else b)"

text \<open>
  Property read \<open>v.k\<close>. Reading a property of \<open>undefined\<close> or \<open>null\<close> throws a
  TypeError (\<open>None\<close>); a missing property reads as \<open>undefined\<close>. The property names
  the service reads (guid, title, date, feedConfig, ...) are not defined on strings,
  numbers, dates or arrays, so they read as \<open>undefined\<close> there.
\<close>

fun get_prop :: "jsval \<Rightarrow> string \<Rightarrow> jsval option" where
  "get_prop JUndefined k = None"
| "get_prop JNull k = None"
| "get_prop (JObj fs) k = (case map_of fs k of None \<Rightarrow> Some JUndefined | Some v \<Rightarrow> Some v)"
| "get_prop v k = Some JUndefined"

text \<open>Property write \<open>o[k] = v\<close> in an object literal: an existing key keeps its place.\<close>

fun set_field :: "string \<Rightarrow> jsval \<Rightarrow> (string \<times> jsval) list \<Rightarrow> (string \<times> jsval) list" where
  "set_field k v [] = [(k, v)]"
| "set_field k v ((k', v') # fs) =
     (if k = k' then (k, v) # fs else (k', v') # set_field k v fs)"

text \<open>An object literal \<open>{...base, k1: v1, ..., kn: vn}\<close>.\<close>

definition obj_lit :: "(string \<times> jsval) list \<Rightarrow> (string \<times> jsval) list \<Rightarrow> jsval" where
  "obj_lit base kvs = JObj (foldl (\<lambda>fs (k, v). set_field k v fs) base kvs)"

subsection \<open>Decimal numerals\<close>

definition digit_char :: "nat \<Rightarrow> char" where
  "digit_char d = ''0123456789'' ! (d mod 10)"

fun show_nat :: "nat \<Rightarrow> string" where
  "show_nat n = (if n < 10 then [digit_char n] else show_nat (n div 10) @ [digit_char (n mod 10)])"

declare show_nat.simps [simp del]

definition show_int :: "int \<Rightarrow> string" where
  "show_int i = (if i < 0 then CHR ''-'' # show_nat (nat (- i)) else show_nat (nat i))"

definition digit_of :: "char \<Rightarrow> nat option" where
  "digit_of c = map_of
     [(CHR ''0'', 0), (CHR ''1'', 1), (CHR ''2'', 2), (CHR ''3'', 3), (CHR ''4'', 4),
      (CHR ''5'', 5), (CHR ''6'', 6), (CHR ''7'', 7), (CHR ''8'', 8), (CHR ''9'', 9)] c"

text \<open>The value of the longest prefix of decimal digits, with the rest of the text.\<close>

fun read_digits :: "nat \<Rightarrow> string \<Rightarrow> nat \<times> string" where
  "read_digits acc [] = (acc, [])"
| "read_digits acc (c # cs) =
     (case digit_of c of None \<Rightarrow> (acc, c # cs) | Some d \<Rightarrow> read_digits (10 * acc + d) cs)"

text \<open>White space of JSON, and white space of the language (\<open>trim\<close>, \<open>parseInt\<close>).\<close>

definition is_space :: "char \<Rightarrow> bool" where
  "is_space c = (c = CHR '' '' \<or> c = CHR 0x09 \<or> c = CHR 0x0A \<or> c = CHR 0x0D)"

definition is_trim_space :: "char \<Rightarrow> bool" where
  "is_trim_space c = (is_space c \<or> c = CHR 0x0B \<or> c = CHR 0x0C \<or> c = CHR 0xA0)"

text \<open>
  \<open>parseInt(s, 10)\<close>: leading white space, an optional sign, then the longest prefix
  of digits; \<open>None\<close> is NaN.
\<close>

definition parseInt :: "string \<Rightarrow> int option" where
  "parseInt s =
     (let t = dropWhile is_trim_space s;
          neg = (t \<noteq> [] \<and> hd t = CHR ''-'');
          u = (if t \<noteq> [] \<and> (hd t = CHR ''-'' \<or> hd t = CHR ''+'') then tl t else t)
      in if u = [] \<or> digit_of (hd u) = None then None
         else (let n = int (fst (read_digits 0 u)) in Some (if neg then - n else n)))"

subsection \<open>Dates\<close>

text \<open>
  \<open>toISOString\<close> of a time value: the civil date of the day number (proleptic
  Gregorian calendar) and the time of day, as \<open>YYYY-MM-DDTHH:mm:ss.sssZ\<close>; years
  outside 0..9999 are written with a sign and six digits.
\<close>

definition pad :: "nat \<Rightarrow> nat \<Rightarrow> string" where
  "pad w n = replicate (w - length (show_nat n)) (CHR ''0'') @ show_nat n"

definition civil_from_days :: "int \<Rightarrow> int \<times> int \<times> int" where
  "civil_from_days days =
     (let z = days + 719468;
          era = z div 146097;
          doe = z - era * 146097;
          yoe = (doe - doe div 1460 + doe div 36524 - doe div 146096) div 365;
          y = yoe + era * 400;
          doy = doe - (365 * yoe + yoe div 4 - yoe div 100);
          mp = (5 * doy + 2) div 153;
          d = doy - (153 * mp + 2) div 5 + 1;
          m = (if mp < 10 then mp + 3 else mp - 9)
      in (if m \<le> 2 then y + 1 else y, m, d))"

definition days_from_civil :: "int \<Rightarrow> int \<Rightarrow> int \<Rightarrow> int" where
  "days_from_civil y0 m d =
     (let y = (if m \<le> 2 then y0 - 1 else y0);
          era = y div 400;
          yoe = y - era * 400;
          doy = (153 * (if m > 2 then m - 3 else m + 9) + 2) div 5 + d - 1;
          doe = yoe * 365 + yoe div 4 - yoe div 100 + doy
      in era * 146097 + doe - 719468)"

definition show_year :: "int \<Rightarrow> string" where
  "show_year y =
     (if 0 \<le> y \<and> y \<le> 9999 then pad 4 (nat y)
      else (if y < 0 then CHR ''-'' else CHR ''+'') # pad 6 (nat \<bar>y\<bar>))"

definition toISOString :: "int \<Rightarrow> string" where
  "toISOString t =
     (let r = t mod 86400000;
          (y, m, d) = civil_from_days (t div 86400000)
      in show_year y @ ''-'' @ pad 2 (nat m) @ ''-'' @ pad 2 (nat d) @ ''T''
         @ pad 2 (nat (r div 3600000)) @ '':'' @ pad 2 (nat (r div 60000 mod 60)) @ '':''
         @ pad 2 (nat (r div 1000 mod 60)) @ ''.'' @ pad 3 (nat (r mod 1000)) @ ''Z'')"

text \<open>A time value is a date only within 8.64e15 ms of the epoch (TimeClip).\<close>

definition time_clip :: "int \<Rightarrow> jsdate" where
  "time_clip t = (if \<bar>t\<bar> \<le> 8640000000000000 then Ms t else InvalidDate)"

text \<open>Exactly \<open>w\<close> decimal digits.\<close>

definition fixed_digits :: "nat \<Rightarrow> string \<Rightarrow> nat option" where
  "fixed_digits w s =
     (if length s = w \<and> (\<forall>c \<in> set s. digit_of c \<noteq> None) then Some (fst (read_digits 0 s))
      else None)"

definition days_in_month :: "int \<Rightarrow> int \<Rightarrow> int" where
  "days_in_month y m =
     (if m = 2 then (if y mod 4 = 0 \<and> (y mod 100 \<noteq> 0 \<or> y mod 400 = 0) then 29 else 28)
      else if m = 4 \<or> m = 6 \<or> m = 9 \<or> m = 11 then 30 else 31)"

text \<open>
  \<open>Date.parse\<close> on a string. The model reads the two forms the service itself
  produces and documents: the full form \<open>YYYY-MM-DDTHH:mm:ss.sssZ\<close> (what
  \<open>JSON.stringify\<close> writes for a date) and the date-only form \<open>YYYY-MM-DD\<close>. Every
  other text reads as the invalid date; the further formats a JavaScript engine accepts
  are implementation-defined and are not part of the model.
\<close>

definition Date_parse :: "string \<Rightarrow> jsdate" where
  "Date_parse s =
     (case (fixed_digits 4 (take 4 s), fixed_digits 2 (take 2 (drop 5 s)),
            fixed_digits 2 (take 2 (drop 8 s))) of
        (Some y, Some m, Some d) \<Rightarrow>
          if take 1 (drop 4 s) = ''-'' \<and> take 1 (drop 7 s) = ''-'' \<and> 1 \<le> m \<and> m \<le> 12
             \<and> 1 \<le> d \<and> int d \<le> days_in_month (int y) (int m)
          then (let day = days_from_civil (int y) (int m) (int d) in
                if length s = 10 then Ms (day * 86400000)
                else (case (fixed_digits 2 (take 2 (drop 11 s)), fixed_digits 2 (take 2 (drop 14 s)),
                            fixed_digits 2 (take 2 (drop 17 s)), fixed_digits 3 (take 3 (drop 20 s))) of
                        (Some h, Some mi, Some sec, Some ms) \<Rightarrow>
                          if length s = 24 \<and> take 1 (drop 10 s) = ''T'' \<and> take 1 (drop 13 s) = '':''
                             \<and> take 1 (drop 16 s) = '':'' \<and> take 1 (drop 19 s) = ''.''
                             \<and> drop 23 s = ''Z'' \<and> h < 24 \<and> mi < 60 \<and> sec < 60
                          then Ms (day * 86400000 + int h * 3600000 + int mi * 60000
                                   + int sec * 1000 + int ms)
                          else InvalidDate
                      | _ \<Rightarrow> InvalidDate))
          else InvalidDate
      | _ \<Rightarrow> InvalidDate)"

text \<open>
  \<open>new Date(v)\<close>. A number is a time value, a string is parsed, \<open>null\<close> and booleans
  convert to 0 and 1, \<open>undefined\<close> and objects give the invalid date. An array is
  converted through its text by JavaScript; the model reads it as the invalid date.
\<close>

fun new_Date :: "jsval \<Rightarrow> jsdate" where
  "new_Date (JNum n) = time_clip n"
| "new_Date (JStr s) = Date_parse s"
| "new_Date (JDate d) = d"
| "new_Date JNull = Ms 0"
| "new_Date (JBool b) = Ms (if b then 1 else 0)"
| "new_Date v = InvalidDate"

section \<open>JSON\<close>

subsection \<open>\<open>JSON.stringify\<close>\<close>

definition hex_char :: "nat \<Rightarrow> char" where
  "hex_char d = ''0123456789abcdef'' ! (d mod 16)"

definition json_escape :: "char \<Rightarrow> string" where
  "json_escape c =
     (if c = CHR 0x22 then [CHR 0x5C, CHR 0x22]
      else if c = CHR 0x5C then [CHR 0x5C, CHR 0x5C]
      else if c = CHR 0x08 then [CHR 0x5C, CHR ''b'']
      else if c = CHR 0x09 then [CHR 0x5C, CHR ''t'']
      else if c = CHR 0x0A then [CHR 0x5C, CHR ''n'']
      else if c = CHR 0x0C then [CHR 0x5C, CHR ''f'']
      else if c = CHR 0x0D then [CHR 0x5C, CHR ''r'']
      else if (of_char c :: nat) < 32
        then [CHR 0x5C, CHR ''u'', CHR ''0'', CHR ''0'', hex_char (of_char c div 16),
              hex_char (of_char c mod 16)]
      else [c])"

definition json_quote :: "string \<Rightarrow> string" where
  "json_quote s = CHR 0x22 # concat (map json_escape s) @ [CHR 0x22]"

fun join :: "string \<Rightarrow> string list \<Rightarrow> string" where
  "join sep [] = []"
| "join sep [x] = x"
| "join sep (x # y # ys) = x @ sep @ join sep (y # ys)"

text \<open>
  \<open>JSON.stringify(v, null, gap)\<close> at indentation \<open>ind\<close>. A property whose value is
  \<open>undefined\<close> is left out of an object and written \<open>null\<close> in an array; a valid
  date is written as its ISO text, the invalid date as \<open>null\<close>. With an empty gap
  the text is compact.
\<close>

fun serialize :: "string \<Rightarrow> string \<Rightarrow> jsval \<Rightarrow> string"
  and serialize_elems :: "string \<Rightarrow> string \<Rightarrow> jsval list \<Rightarrow> string list"
  and serialize_members :: "string \<Rightarrow> string \<Rightarrow> (string \<times> jsval) list \<Rightarrow> string list"
where
  "serialize gap ind JUndefined = ''null''"
| "serialize gap ind JNull = ''null''"
| "serialize gap ind (JBool b) = (if b then ''true'' else ''false'')"
| "serialize gap ind (JNum n) = show_int n"
| "serialize gap ind (JStr s) = json_quote s"
| "serialize gap ind (JDate InvalidDate) = ''null''"
| "serialize gap ind (JDate (Ms t)) = json_quote (toISOString t)"
| "serialize gap ind (JArr xs) =
     (let parts = serialize_elems gap (ind @ gap) xs in
      if parts = [] then ''[]''
      else if gap = [] then ''['' @ join '','' parts @ '']''
      else ''['' @ [CHR 0x0A] @ ind @ gap @ join ('','' @ [CHR 0x0A] @ ind @ gap) parts
           @ [CHR 0x0A] @ ind @ '']'')"
| "serialize gap ind (JObj fs) =
     (let parts = serialize_members gap (ind @ gap) fs in
      if parts = [] then ''{}''
      else if gap = [] then ''{'' @ join '','' parts @ ''}''
      else ''{'' @ [CHR 0x0A] @ ind @ gap @ join ('','' @ [CHR 0x0A] @ ind @ gap) parts
           @ [CHR 0x0A] @ ind @ ''}'')"
| "serialize_elems gap ind [] = []"
| "serialize_elems gap ind (x # xs) = serialize gap ind x # serialize_elems gap ind xs"
| "serialize_members gap ind [] = []"
| "serialize_members gap ind ((k, v) # fs) =
     (if v = JUndefined then serialize_members gap ind fs
      else (json_quote k @ (if gap = [] then '':'' else '': '') @ serialize gap ind v)
           # serialize_members gap ind fs)"

text \<open>\<open>JSON.stringify(v)\<close>; the service only passes objects, never \<open>undefined\<close>.\<close>

definition JSON_stringify :: "jsval \<Rightarrow> string" where
  "JSON_stringify v = serialize [] [] v"

text \<open>\<open>JSON.stringify(v, null, 2)\<close>.\<close>

definition JSON_stringify_2 :: "jsval \<Rightarrow> string" where
  "JSON_stringify_2 v = serialize ''  '' [] v"

subsection \<open>\<open>JSON.parse\<close>\<close>

text \<open>
  The text is cut into tokens by a character automaton and the tokens are read by a
  stack automaton, so the parser is total. \<open>None\<close> is a SyntaxError. A number literal
  with a fraction or an exponent and a \<open>\u\<close> escape above 0xFF have no value in the
  model and are rejected.
\<close>

datatype token =
  TLBrace | TRBrace | TLBrack | TRBrack | TComma | TColon
  | TStr string | TNum int | TLit jsval

datatype lstate =
    LIdle
  | LStr string
  | LEsc string
  | LHex string nat nat
  | LNum bool "nat option"
  | LWord string jsval

definition hex_of :: "char \<Rightarrow> nat option" where
  "hex_of c = map_of
     [(CHR ''0'', 0), (CHR ''1'', 1), (CHR ''2'', 2), (CHR ''3'', 3), (CHR ''4'', 4),
      (CHR ''5'', 5), (CHR ''6'', 6), (CHR ''7'', 7), (CHR ''8'', 8), (CHR ''9'', 9),
      (CHR ''a'', 10), (CHR ''b'', 11), (CHR ''c'', 12), (CHR ''d'', 13), (CHR ''e'', 14),
      (CHR ''f'', 15), (CHR ''A'', 10), (CHR ''B'', 11), (CHR ''C'', 12), (CHR ''D'', 13),
      (CHR ''E'', 14), (CHR ''F'', 15)] c"

definition lex_idle :: "char \<Rightarrow> (lstate \<times> token list) option" where
  "lex_idle c =
     (if is_space c then Some (LIdle, [])
      else if c = CHR ''{'' then Some (LIdle, [TLBrace])
      else if c = CHR ''}'' then Some (LIdle, [TRBrace])
      else if c = CHR ''['' then Some (LIdle, [TLBrack])
      else if c = CHR '']'' then Some (LIdle, [TRBrack])
      else if c = CHR '','' then Some (LIdle, [TComma])
      else if c = CHR '':'' then Some (LIdle, [TColon])
      else if c = CHR 0x22 then Some (LStr [], [])
      else if c = CHR ''-'' then Some (LNum True None, [])
      else if c = CHR ''t'' then Some (LWord ''rue'' (JBool True), [])
      else if c = CHR ''f'' then Some (LWord ''alse'' (JBool False), [])
      else if c = CHR ''n'' then Some (LWord ''ull'' JNull, [])
      else (case digit_of c of Some d \<Rightarrow> Some (LNum False (Some d), []) | None \<Rightarrow> None))"

definition unescape :: "char \<Rightarrow> char option" where
  "unescape c = map_of
     [(CHR 0x22, CHR 0x22), (CHR 0x5C, CHR 0x5C), (CHR ''/'', CHR ''/''),
      (CHR ''b'', CHR 0x08), (CHR ''f'', CHR 0x0C), (CHR ''n'', CHR 0x0A),
      (CHR ''r'', CHR 0x0D), (CHR ''t'', CHR 0x09)] c"

definition num_token :: "bool \<Rightarrow> nat \<Rightarrow> token" where
  "num_token neg n = TNum (if neg then - int n else int n)"

fun lex_char :: "lstate \<Rightarrow> char \<Rightarrow> (lstate \<times> token list) option" where
  "lex_char LIdle c = lex_idle c"
| "lex_char (LStr acc) c =
     (if c = CHR 0x22 then Some (LIdle, [TStr (rev acc)])
      else if c = CHR 0x5C then Some (LEsc acc, [])
      else if (of_char c :: nat) < 32 then None
      else Some (LStr (c # acc), []))"
| "lex_char (LEsc acc) c =
     (if c = CHR ''u'' then Some (LHex acc 0 0, [])
      else (case unescape c of Some e \<Rightarrow> Some (LStr (e # acc), []) | None \<Rightarrow> None))"
| "lex_char (LHex acc k v) c =
     (case hex_of c of
        None \<Rightarrow> None
      | Some h \<Rightarrow>
          if k < 3 then Some (LHex acc (Suc k) (16 * v + h), [])
          else if 16 * v + h < 256 then Some (LStr (char_of (16 * v + h) # acc), [])
          else None)"
| "lex_char (LNum neg None) c =
     (case digit_of c of Some d \<Rightarrow> Some (LNum neg (Some d), []) | None \<Rightarrow> None)"
| "lex_char (LNum neg (Some n)) c =
     (case digit_of c of
        Some d \<Rightarrow> if n = 0 then None else Some (LNum neg (Some (10 * n + d)), [])
      | None \<Rightarrow>
          if c = CHR ''.'' \<or> c = CHR ''e'' \<or> c = CHR ''E'' then None
          else (case lex_idle c of
                  None \<Rightarrow> None
                | Some (st, ts) \<Rightarrow> Some (st, num_token neg n # ts)))"
| "lex_char (LWord [] v) c = None"
| "lex_char (LWord (r # rs) v) c =
     (if c \<noteq> r then None else if rs = [] then Some (LIdle, [TLit v]) else Some (LWord rs v, []))"

fun lex_go :: "lstate \<Rightarrow> string \<Rightarrow> token list option" where
  "lex_go LIdle [] = Some []"
| "lex_go (LNum neg (Some n)) [] = Some [num_token neg n]"
| "lex_go st [] = None"
| "lex_go st (c # cs) =
     (case lex_char st c of
        None \<Rightarrow> None
      | Some (st', ts) \<Rightarrow> (case lex_go st' cs of None \<Rightarrow> None | Some us \<Rightarrow> Some (ts @ us)))"

datatype frame = FArr "jsval list" | FObj "(string \<times> jsval) list" | FKey "(string \<times> jsval) list" string

datatype pmode = PValue | PFirst | PKeyFirst | PKey | PColon | PNext | PDone jsval

text \<open>A complete value goes to the container on top of the stack.\<close>

fun push_value :: "jsval \<Rightarrow> frame list \<Rightarrow> (frame list \<times> pmode) option" where
  "push_value v [] = Some ([], PDone v)"
| "push_value v (FArr xs # st) = Some (FArr (v # xs) # st, PNext)"
| "push_value v (FKey fs k # st) = Some (FObj (set_field k v fs) # st, PNext)"
| "push_value v (FObj fs # st) = None"

fun parse_value_token :: "frame list \<Rightarrow> token \<Rightarrow> (frame list \<times> pmode) option" where
  "parse_value_token st (TStr s) = push_value (JStr s) st"
| "parse_value_token st (TNum n) = push_value (JNum n) st"
| "parse_value_token st (TLit v) = push_value v st"
| "parse_value_token st TLBrack = Some (FArr [] # st, PFirst)"
| "parse_value_token st TLBrace = Some (FObj [] # st, PKeyFirst)"
| "parse_value_token st t = None"

fun parse_token :: "frame list \<times> pmode \<Rightarrow> token \<Rightarrow> (frame list \<times> pmode) option" where
  "parse_token (st, PValue) t = parse_value_token st t"
| "parse_token (FArr [] # st, PFirst) TRBrack = push_value (JArr []) st"
| "parse_token (st, PFirst) t = parse_value_token st t"
| "parse_token (FObj [] # st, PKeyFirst) TRBrace = push_value (JObj []) st"
| "parse_token (FObj fs # st, PKeyFirst) (TStr k) = Some (FKey fs k # st, PColon)"
| "parse_token (FObj fs # st, PKey) (TStr k) = Some (FKey fs k # st, PColon)"
| "parse_token (st, PColon) TColon = Some (st, PValue)"
| "parse_token (FArr xs # st, PNext) TComma = Some (FArr xs # st, PValue)"
| "parse_token (FObj fs # st, PNext) TComma = Some (FObj fs # st, PKey)"
| "parse_token (FArr xs # st, PNext) TRBrack = push_value (JArr (rev xs)) st"
| "parse_token (FObj fs # st, PNext) TRBrace = push_value (JObj fs) st"
| "parse_token s t = None"

fun parse_go :: "frame list \<times> pmode \<Rightarrow> token list \<Rightarrow> jsval option" where
  "parse_go (st, PDone v) [] = Some v"
| "parse_go s [] = None"
| "parse_go s (t # ts) = (case parse_token s t of None \<Rightarrow> None | Some s' \<Rightarrow> parse_go s' ts)"

definition JSON_parse :: "string \<Rightarrow> jsval option" where
  "JSON_parse s = (case lex_go LIdle s of None \<Rightarrow> None | Some ts \<Rightarrow> parse_go ([], PValue) ts)"

subsection \<open>Values as text\<close>

text \<open>
  The text of a value in a template literal \<open>`${v}`\<close>. It is exact on every value
  that JSON can carry; the text of a \<open>Date\<close> depends on the time zone of the process
  and is given here in its ISO form.
\<close>

fun js_string :: "jsval \<Rightarrow> string"
  and js_strings :: "jsval list \<Rightarrow> string list"
where
  "js_string JUndefined = ''undefined''"
| "js_string JNull = ''null''"
| "js_string (JBool b) = (if b then ''true'' else ''false'')"
| "js_string (JNum n) = show_int n"
| "js_string (JStr s) = s"
| "js_string (JDate InvalidDate) = ''Invalid Date''"
| "js_string (JDate (Ms t)) = toISOString t"
| "js_string (JArr xs) = join '','' (js_strings xs)"
| "js_string (JObj fs) = ''[object Object]''"
| "js_strings [] = []"
| "js_strings (x # xs) =
     (if x = JUndefined \<or> x = JNull then [] else js_string x) # js_strings xs"

text \<open>
  The number of a value in arithmetic (\<open>v - 1\<close>, \<open>n > v\<close>); \<open>None\<close> is NaN. The
  values read this way are declared \<open>number\<close>. JavaScript converts a string or an
  array through its text; the model reads them as NaN.
\<close>

fun js_number :: "jsval \<Rightarrow> int option" where
  "js_number (JNum n) = Some n"
| "js_number JNull = Some 0"
| "js_number (JBool b) = Some (if b then 1 else 0)"
| "js_number (JDate (Ms t)) = Some t"
| "js_number v = None"

text \<open>The field \<open>o.k\<close> of an object given by its property list.\<close>

definition field :: "(string \<times> jsval) list \<Rightarrow> string \<Rightarrow> jsval" where
  "field fs k = (case map_of fs k of None \<Rightarrow> JUndefined | Some v \<Rightarrow> v)"

section \<open>The in-memory store (\<open>mock/redis.ts\<close>)\<close>

text \<open>
  The store of the model is the repository's own in-memory implementation of the
  key-value interface: a table from keys to values, where a value is a text or an array
  of texts (lists and sets are both arrays). Its operations do not throw. The members of
  a set are kept as their texts, as a Redis server keeps them.
\<close>

datatype rvalue = RStr string | RArr "string list"

type_synonym storage = "string \<rightharpoonup> rvalue"

text \<open>\<open>!inMemoryStorage[key]\<close>: the key is absent or holds the empty text.\<close>

definition absent_or_empty :: "storage \<Rightarrow> string \<Rightarrow> bool" where
  "absent_or_empty st key = (st key = None \<or> st key = Some (RStr []))"

text \<open>\<open>!inMemoryStorage[key] || !Array.isArray(inMemoryStorage[key])\<close>.\<close>

definition array_at :: "storage \<Rightarrow> string \<Rightarrow> string list option" where
  "array_at st key = (case st key of Some (RArr xs) \<Rightarrow> Some xs | _ \<Rightarrow> None)"

definition redis_get :: "storage \<Rightarrow> string \<Rightarrow> rvalue option" where
  "redis_get st key = st key"

definition redis_set :: "storage \<Rightarrow> string \<Rightarrow> string \<Rightarrow> storage" where
  "redis_set st key v = st(key \<mapsto> RStr v)"

definition redis_exists :: "storage \<Rightarrow> string \<Rightarrow> nat" where
  "redis_exists st key = (if st key \<noteq> None then 1 else 0)"

text \<open>
  \<open>xs.slice(start, end)\<close>; \<open>None\<close> for an \<open>undefined\<close> end. Negative indices count
  from the end of the array and both indices are clamped to it.
\<close>

definition js_slice :: "'a list \<Rightarrow> int \<Rightarrow> int option \<Rightarrow> 'a list" where
  "js_slice xs start end =
     (let len = int (length xs);
          k = (if start < 0 then max (len + start) 0 else min start len);
          final = (case end of
                     None \<Rightarrow> len
                   | Some e \<Rightarrow> if e < 0 then max (len + e) 0 else min e len)
      in take (nat (final - k)) (drop (nat k) xs))"

definition redis_lrange :: "storage \<Rightarrow> string \<Rightarrow> int \<Rightarrow> int \<Rightarrow> string list" where
  "redis_lrange st key start end =
     (case array_at st key of
        None \<Rightarrow> []
      | Some xs \<Rightarrow> js_slice xs start (if end = - 1 then None else Some (end + 1)))"

text \<open>\<open>lpush\<close> puts the value in front; a text under the key becomes the array of it.\<close>

definition redis_lpush :: "storage \<Rightarrow> string \<Rightarrow> string \<Rightarrow> storage" where
  "redis_lpush st key v =
     (if absent_or_empty st key then st(key \<mapsto> RArr [v])
      else (case st key of
              Some (RArr xs) \<Rightarrow> st(key \<mapsto> RArr (v # xs))
            | Some (RStr s) \<Rightarrow> st(key \<mapsto> RArr [v, s])
            | None \<Rightarrow> st(key \<mapsto> RArr [v])))"

text \<open>
  \<open>ltrim\<close>; the end index is \<open>None\<close> when it is NaN. An end that is NaN or negative
  keeps all items.
\<close>

definition redis_ltrim :: "storage \<Rightarrow> string \<Rightarrow> int \<Rightarrow> int option \<Rightarrow> storage" where
  "redis_ltrim st key start end =
     (case array_at st key of
        None \<Rightarrow> st
      | Some xs \<Rightarrow>
          (let endIndex = (case end of None \<Rightarrow> - 1 | Some e \<Rightarrow> if e < 0 then - 1 else e)
           in st(key \<mapsto> RArr (js_slice xs start
                                (if endIndex = - 1 then None else Some (endIndex + 1))))))"

definition redis_llen :: "storage \<Rightarrow> string \<Rightarrow> int" where
  "redis_llen st key = (case array_at st key of None \<Rightarrow> 0 | Some xs \<Rightarrow> int (length xs))"

definition redis_sismember :: "storage \<Rightarrow> string \<Rightarrow> string \<Rightarrow> nat" where
  "redis_sismember st key member =
     (case array_at st key of None \<Rightarrow> 0 | Some xs \<Rightarrow> if member \<in> set xs then 1 else 0)"

definition redis_sadd :: "storage \<Rightarrow> string \<Rightarrow> string \<Rightarrow> storage" where
  "redis_sadd st key member =
     (let xs = (if absent_or_empty st key then []
                else (case st key of Some (RArr ys) \<Rightarrow> ys | Some (RStr s) \<Rightarrow> [s] | None \<Rightarrow> []))
      in if member \<in> set xs then st(key \<mapsto> RArr xs) else st(key \<mapsto> RArr (xs @ [member])))"

text \<open>\<open>srem\<close> removes the first occurrence of the member.\<close>

definition redis_srem :: "storage \<Rightarrow> string \<Rightarrow> string \<Rightarrow> storage" where
  "redis_srem st key member =
     (case array_at st key of
        None \<Rightarrow> st
      | Some xs \<Rightarrow> if member \<in> set xs then st(key \<mapsto> RArr (remove1 member xs)) else st)"

section \<open>Errors (\<open>errors.ts\<close>)\<close>

text \<open>
  Each error class with the argument of its constructor. A message that quotes another
  error (\<open>`Failed to add item: ${error}`\<close>) is kept up to the colon.
\<close>

datatype error =
    FeedNotFoundError string
  | DuplicateItemError string
  | InvalidPayloadError string
  | FeedConfigurationError string
  | StorageError string

fun statusCode :: "error \<Rightarrow> nat" where
  "statusCode (FeedNotFoundError feedId) = 404"
| "statusCode (DuplicateItemError guid) = 409"
| "statusCode (InvalidPayloadError m) = 400"
| "statusCode (FeedConfigurationError m) = 400"
| "statusCode (StorageError m) = 500"

section \<open>Feed storage (\<open>storage.ts\<close>)\<close>

definition feedKey :: "string \<Rightarrow> string" where
  "feedKey feedId = ''feed:'' @ feedId"

definition itemsKey :: "string \<Rightarrow> string" where
  "itemsKey feedId = ''feed:'' @ feedId @ '':items''"

definition guidsKey :: "string \<Rightarrow> string" where
  "guidsKey feedId = ''feed:'' @ feedId @ '':guids''"

definition feedExists :: "storage \<Rightarrow> string \<Rightarrow> bool" where
  "feedExists st feedId = (redis_exists st (feedKey feedId) = 1)"

text \<open>
  \<open>createFeed(config)\<close> at clock reading \<open>now\<close>. The configuration is an object,
  given by its properties; the result is the feed id and the store after the write.
\<close>

definition createFeed :: "storage \<Rightarrow> int \<Rightarrow> (string \<times> jsval) list \<Rightarrow> (error + string) \<times> storage" where
  "createFeed st now config =
     (if \<not> truthy (field config ''id'')
      then (Inl (StorageError ''Feed ID is required when creating a feed''), st)
      else (let feedId = js_string (field config ''id'') in
            (Inr feedId,
             redis_set st (feedKey feedId)
               (JSON_stringify (JObj [(''feedConfig'', JObj config),
                                      (''createdAt'', JStr (toISOString now))])))))"

text \<open>The text of a stored value, as \<open>JSON.parse\<close> receives it.\<close>

fun rvalue_text :: "rvalue \<Rightarrow> string" where
  "rvalue_text (RStr s) = s"
| "rvalue_text (RArr xs) = join '','' xs"

definition getFeedConfig :: "storage \<Rightarrow> string \<Rightarrow> error + jsval" where
  "getFeedConfig st feedId =
     (case redis_get st (feedKey feedId) of
        None \<Rightarrow> Inl (FeedNotFoundError feedId)
      | Some feedData \<Rightarrow>
          if feedData = RStr [] then Inl (FeedNotFoundError feedId)
          else (case JSON_parse (rvalue_text feedData) of
                  None \<Rightarrow> Inl (StorageError ''Failed to get feed configuration'')
                | Some parsedData \<Rightarrow>
                    (case get_prop parsedData ''feedConfig'' of
                       None \<Rightarrow> Inl (StorageError (''Invalid feed configuration format for feed: '' @ feedId))
                     | Some feedConfig \<Rightarrow>
                         if \<not> truthy feedConfig
                         then Inl (StorageError (''Invalid feed configuration format for feed: '' @ feedId))
                         else Inr feedConfig)))"

definition itemExists :: "storage \<Rightarrow> string \<Rightarrow> string \<Rightarrow> error + bool" where
  "itemExists st feedId guid =
     (if \<not> feedExists st feedId then Inl (FeedNotFoundError feedId)
      else Inr (redis_sismember st (guidsKey feedId) guid = 1))"

text \<open>
  One round of the clean-up loop of \<open>addItem\<close>: the guid of a removed item is erased
  from the set; an item that does not parse is skipped (the source logs a warning).
\<close>

definition removeGuid :: "string \<Rightarrow> storage \<Rightarrow> string \<Rightarrow> storage" where
  "removeGuid feedId st removedItemJson =
     (case JSON_parse removedItemJson of
        None \<Rightarrow> st
      | Some removedItem \<Rightarrow>
          (case get_prop removedItem ''guid'' of
             None \<Rightarrow> st
           | Some guid \<Rightarrow>
               if truthy guid then redis_srem st (guidsKey feedId) (js_string guid) else st))"

text \<open>
  \<open>addItem(feedId, item)\<close>. The item is an object, given by its properties. The result
  pairs the outcome with the store as the call leaves it, in the order of the source:
  existence check, duplicate check, configuration read, \<open>lpush\<close>, \<open>sadd\<close>, \<open>ltrim\<close>,
  \<open>llen\<close>, and the clean-up of the guid set when the length exceeds \<open>maxItems\<close>.
\<close>

definition addItem :: "storage \<Rightarrow> string \<Rightarrow> (string \<times> jsval) list \<Rightarrow> (error + unit) \<times> storage" where
  "addItem st feedId item =
     (if \<not> feedExists st feedId then (Inl (FeedNotFoundError feedId), st)
      else
        (let guid = field item ''guid'';
             duplicate = (if truthy guid then itemExists st feedId (js_string guid) else Inr False)
         in case duplicate of
              Inl (FeedNotFoundError f) \<Rightarrow> (Inl (FeedNotFoundError f), st)
            | Inl e \<Rightarrow> (Inl (StorageError ''Failed to add item''), st)
            | Inr True \<Rightarrow> (Inl (DuplicateItemError (js_string guid)), st)
            | Inr False \<Rightarrow>
                (case getFeedConfig st feedId of
                   Inl (FeedNotFoundError f) \<Rightarrow> (Inl (FeedNotFoundError f), st)
                 | Inl e \<Rightarrow> (Inl (StorageError ''Failed to add item''), st)
                 | Inr config \<Rightarrow>
                     (let st1 = redis_lpush st (itemsKey feedId) (JSON_stringify (JObj item));
                          st2 = (if truthy guid
                                 then redis_sadd st1 (guidsKey feedId) (js_string guid)
                                 else st1)
                      in case get_prop config ''maxItems'' of
                           None \<Rightarrow> (Inl (StorageError ''Failed to add item''), st2)
                         | Some m \<Rightarrow>
                             (let maxItems = js_number m;
                                  st3 = redis_ltrim st2 (itemsKey feedId) 0
                                          (map_option (\<lambda>n. n - 1) maxItems);
                                  currentItemCount = redis_llen st3 (itemsKey feedId)
                              in case maxItems of
                                   None \<Rightarrow> (Inr (), st3)
                                 | Some n \<Rightarrow>
                                     if currentItemCount > n
                                     then (Inr (),
                                           foldl (removeGuid feedId) st3
                                             (redis_lrange st3 (itemsKey feedId) n (- 1)))
                                     else (Inr (), st3))))))"

section \<open>Rate limiting (\<open>middleware/rate-limit.ts\<close>)\<close>

text \<open>
  The counters of the in-memory store. \<open>expire\<close> writes the expiry time under
  \<open>key:expiry\<close> and starts a timer that deletes both keys when it is due; the pending
  timers are part of the state of the store.
\<close>

record mock_redis =
  store :: storage
  timers :: "(int \<times> string) list"

definition expiryKey :: "string \<Rightarrow> string" where
  "expiryKey key = key @ '':expiry''"

definition mock_incr :: "storage \<Rightarrow> string \<Rightarrow> int \<times> storage" where
  "mock_incr st key =
     (case st key of
        None \<Rightarrow> (1, st(key \<mapsto> RStr ''1''))
      | Some (RStr v) \<Rightarrow>
          (case parseInt v of
             Some num \<Rightarrow> (num + 1, st(key \<mapsto> RStr (show_int (num + 1))))
           | None \<Rightarrow> (1, st(key \<mapsto> RStr ''1'')))
      | Some (RArr xs) \<Rightarrow> (1, st(key \<mapsto> RStr ''1'')))"

definition mock_expire :: "mock_redis \<Rightarrow> int \<Rightarrow> string \<Rightarrow> int \<Rightarrow> int \<times> mock_redis" where
  "mock_expire r now key seconds =
     (if store r key = None then (0, r)
      else (1, r\<lparr>store := (store r)(expiryKey key \<mapsto> RStr (show_int (now + seconds * 1000))),
                 timers := timers r @ [(now + seconds * 1000, key)]\<rparr>))"

text \<open>\<open>Math.ceil(a / 1000)\<close> on integers.\<close>

definition ceil_div_1000 :: "int \<Rightarrow> int" where
  "ceil_div_1000 a = - ((- a) div 1000)"

definition mock_ttl :: "storage \<Rightarrow> int \<Rightarrow> string \<Rightarrow> int" where
  "mock_ttl st now key =
     (case st (expiryKey key) of
        None \<Rightarrow> - 2
      | Some expiryTime \<Rightarrow>
          (case parseInt (rvalue_text expiryTime) of
             None \<Rightarrow> - 1
           | Some e \<Rightarrow> (let ttl = ceil_div_1000 (e - now) in if ttl > 0 then ttl else - 1)))"

text \<open>
  The passing of time up to the clock reading \<open>now\<close>: every timer that is due has
  run. A timer deletes its key and the expiry entry of the key, if the key is still there.
\<close>

definition fire_timer :: "int \<Rightarrow> storage \<Rightarrow> int \<times> string \<Rightarrow> storage" where
  "fire_timer now st t =
     (if fst t \<le> now \<and> st (snd t) \<noteq> None
      then st(snd t := None, expiryKey (snd t) := None) else st)"

definition elapse :: "int \<Rightarrow> mock_redis \<Rightarrow> mock_redis" where
  "elapse now r =
     \<lparr>store = foldl (fire_timer now) (store r) (timers r),
      timers = filter (\<lambda>t. now < fst t) (timers r)\<rparr>"

text \<open>
  The store client as the middleware uses it. \<open>redis\<close> is chosen when the process
  starts (a networked client or the in-memory store), so the middleware is modelled over
  any client: the batched \<open>incr\<close>/\<open>ttl\<close> call throws or returns its results
  (\<open>None\<close> for no result array), and \<open>expire\<close> throws (\<open>False\<close>) or returns.
\<close>

datatype exec_result = ExecThrows | ExecResults "int list option"

record 'r client =
  pipeline_exec :: "'r \<Rightarrow> int \<Rightarrow> string \<Rightarrow> exec_result \<times> 'r"
  expire_op :: "'r \<Rightarrow> int \<Rightarrow> string \<Rightarrow> int \<Rightarrow> bool \<times> 'r"

definition mock_pipeline_exec :: "mock_redis \<Rightarrow> int \<Rightarrow> string \<Rightarrow> exec_result \<times> mock_redis" where
  "mock_pipeline_exec r now key =
     (let (n, st1) = mock_incr (store r) key;
          t = mock_ttl st1 now key
      in (ExecResults (Some [n, t]), r\<lparr>store := st1\<rparr>))"

definition mock_client :: "mock_redis client" where
  "mock_client =
     \<lparr>pipeline_exec = mock_pipeline_exec,
      expire_op = (\<lambda>r now key seconds. (True, snd (mock_expire r now key seconds)))\<rparr>"

text \<open>\<open>RATE_LIMIT\<close>.\<close>

definition windowMs :: int where
  "windowMs = 5 * 60 * 1000"

definition rate_max :: int where
  "rate_max = 100"

record cache_entry =
  count :: int
  expires :: int

record request =
  req_method :: string
  cf_connecting_ip :: "string option"
  x_forwarded_for :: "string option"
  x_real_ip :: "string option"

datatype exn = HTTPException nat | OtherError string

record 'r limiter_state =
  memCache :: "string \<rightharpoonup> cache_entry"
  remote :: 'r

text \<open>
  What one run of the middleware does: how often it called \<open>next()\<close>, the exception
  that leaves it (if any), the rate-limit headers it set, and the state it leaves.
\<close>

record 'r outcome =
  next_calls :: nat
  thrown :: "exn option"
  response_headers :: "(string \<times> string) list"
  state_after :: "'r limiter_state"

definition js_trim :: "string \<Rightarrow> string" where
  "js_trim s = rev (dropWhile is_trim_space (rev (dropWhile is_trim_space s)))"

text \<open>A header that is missing or empty is falsy in the \<open>||\<close> chain.\<close>

definition header_or :: "string option \<Rightarrow> string \<Rightarrow> string" where
  "header_or h d = (case h of None \<Rightarrow> d | Some v \<Rightarrow> if v = [] then d else v)"

definition client_ip :: "request \<Rightarrow> string" where
  "client_ip req =
     header_or (cf_connecting_ip req)
       (header_or (map_option (\<lambda>h. js_trim (takeWhile (\<lambda>c. c \<noteq> CHR '','') h)) (x_forwarded_for req))
          (header_or (x_real_ip req) ''unknown''))"

definition rate_key :: "request \<Rightarrow> string" where
  "rate_key req = ''ratelimit:'' @ client_ip req"

text \<open>
  \<open>await next()\<close>; the argument is what the downstream handler does (\<open>None\<close>: it
  returns). Inside the \<open>try\<close> block an exception of the handler that is not an
  \<open>HTTPException\<close> is caught and \<open>next()\<close> is called again by the \<open>catch\<close> block.
\<close>

definition next_in_catch :: "exn option \<Rightarrow> nat \<times> exn option" where
  "next_in_catch handler = (1, handler)"

definition next_in_try :: "exn option \<Rightarrow> nat \<times> exn option" where
  "next_in_try handler =
     (case handler of
        None \<Rightarrow> (1, None)
      | Some (HTTPException code) \<Rightarrow> (1, Some (HTTPException code))
      | Some (OtherError m) \<Rightarrow> (Suc (fst (next_in_catch handler)), snd (next_in_catch handler)))"

text \<open>The end of the \<open>try\<close> block: the headers, the comparison with the limit, \<open>next()\<close>.\<close>

definition admit_or_reject :: "exn option \<Rightarrow> int \<Rightarrow> int \<Rightarrow> int \<Rightarrow> 'r limiter_state \<Rightarrow> 'r outcome" where
  "admit_or_reject handler now requests ttl st =
     (let hs = [(''X-RateLimit-Limit'', show_int rate_max),
                (''X-RateLimit-Remaining'', show_int (max 0 (rate_max - requests))),
                (''X-RateLimit-Reset'', show_int (now + ttl * 1000))]
      in if requests > rate_max
         then \<lparr>next_calls = 0, thrown = Some (HTTPException 429), response_headers = hs,
               state_after = st\<rparr>
         else \<lparr>next_calls = fst (next_in_try handler), thrown = snd (next_in_try handler),
               response_headers = hs, state_after = st\<rparr>)"

text \<open>The \<open>catch\<close> block for an error of the store: it is logged and \<open>next()\<close> is called.\<close>

definition fail_open :: "exn option \<Rightarrow> 'r limiter_state \<Rightarrow> 'r outcome" where
  "fail_open handler st =
     \<lparr>next_calls = fst (next_in_catch handler), thrown = snd (next_in_catch handler),
      response_headers = [], state_after = st\<rparr>"

text \<open>
  \<open>rateLimiter(c, next)\<close> for a store client \<open>cl\<close>. One clock reading \<open>now\<close>
  stands for every \<open>Date.now()\<close> of the run.
\<close>

definition rateLimiter :: "'r client \<Rightarrow> exn option \<Rightarrow> int \<Rightarrow> request \<Rightarrow> 'r limiter_state \<Rightarrow> 'r outcome" where
  "rateLimiter cl handler now req st =
     (if req_method req \<noteq> ''GET''
      then \<lparr>next_calls = 1, thrown = handler, response_headers = [], state_after = st\<rparr>
      else
        (let key = rate_key req;
             cached = (case memCache st key of
                         None \<Rightarrow> None
                       | Some e \<Rightarrow> if expires e > now then Some e else None)
         in case cached of
              Some e \<Rightarrow>
                (let requests = count e + 1;
                     ttl = (expires e - now) div 1000
                 in admit_or_reject handler now requests ttl
                      (st\<lparr>memCache := (memCache st)(key \<mapsto> \<lparr>count = requests, expires = expires e\<rparr>)\<rparr>))
            | None \<Rightarrow>
                (case pipeline_exec cl (remote st) now key of
                   (ExecThrows, r) \<Rightarrow> fail_open handler (st\<lparr>remote := r\<rparr>)
                 | (ExecResults None, r) \<Rightarrow>
                     \<lparr>next_calls = fst (next_in_try handler), thrown = snd (next_in_try handler),
                      response_headers = [], state_after = st\<lparr>remote := r\<rparr>\<rparr>
                 | (ExecResults (Some results), r) \<Rightarrow>
                     if length results < 2
                     then \<lparr>next_calls = fst (next_in_try handler), thrown = snd (next_in_try handler),
                           response_headers = [], state_after = st\<lparr>remote := r\<rparr>\<rparr>
                     else
                       (let requests = results ! 0;
                            ttl = results ! 1
                        in if requests = 1 \<or> ttl < 0
                           then (case expire_op cl r now key (windowMs div 1000) of
                                   (False, r') \<Rightarrow> fail_open handler (st\<lparr>remote := r'\<rparr>)
                                 | (True, r') \<Rightarrow>
                                     admit_or_reject handler now requests (windowMs div 1000)
                                       \<lparr>memCache = (memCache st)(key \<mapsto>
                                          \<lparr>count = requests, expires = now + (windowMs div 1000) * 1000\<rparr>),
                                        remote = r'\<rparr>)
                           else admit_or_reject handler now requests ttl
                                  \<lparr>memCache = (memCache st)(key \<mapsto>
                                     \<lparr>count = requests, expires = now + ttl * 1000\<rparr>),
                                   remote = r\<rparr>))))"

text \<open>
  A series of requests against the in-memory store: before each request the time passes
  up to its clock reading. The periodic sweep of the mirror is not part of the series:
  it deletes entries whose expiry has passed, which the middleware reads as absent, and
  it evicts live entries only when the mirror holds more than 10000 clients.
\<close>

fun serve :: "exn option \<Rightarrow> mock_redis limiter_state \<Rightarrow> (int \<times> request) list \<Rightarrow> mock_redis outcome list" where
  "serve handler st [] = []"
| "serve handler st ((now, req) # rest) =
     (let out = rateLimiter mock_client handler now req (st\<lparr>remote := elapse now (remote st)\<rparr>)
      in out # serve handler (state_after out) rest)"

section \<open>HTML helpers (\<open>utils.ts\<close>)\<close>

text \<open>
  Both helpers call a library of the platform, which is a parameter of the model. The
  argument is whatever value the caller passes; \<open>None\<close> means that the library throws.
  \<^item> \<open>textContent\<close> stands for \<open>parse(html).textContent\<close> of the HTML parser;
  \<^item> \<open>sanitizeHtml\<close> stands for the sanitizer, called with the options below.
\<close>

definition stripHtml :: "(jsval \<Rightarrow> string option) \<Rightarrow> jsval \<Rightarrow> string option" where
  "stripHtml textContent html = (if \<not> truthy html then Some [] else textContent html)"




section \<open>Rendering (\<open>formatters.ts\<close>)\<close>

datatype ApiFormat = ApiRaw | ApiHtml

datatype FeedFormat = FRss | FAtom | FJson | FRaw

text \<open>The own properties that \<open>{...v}\<close> copies.\<close>

fun spread :: "jsval \<Rightarrow> (string \<times> jsval) list" where
  "spread (JObj fs) = fs"
| "spread (JArr xs) = zip (map show_nat [0..<length xs]) xs"
| "spread (JStr s) = zip (map show_nat [0..<length s]) (map (\<lambda>c. JStr [c]) s)"
| "spread v = []"

text \<open>
  The named properties of a parsed value, or \<open>None\<close> when reading one throws a
  TypeError (the value is \<open>null\<close>).
\<close>

definition props :: "jsval \<Rightarrow> (string \<Rightarrow> jsval) option" where
  "props v = (if v = JNull \<or> v = JUndefined then None
              else Some (\<lambda>k. case get_prop v k of None \<Rightarrow> JUndefined | Some x \<Rightarrow> x))"

text \<open>\<open>v ? new Date(v) : new Date()\<close> and \<open>v ? new Date(v) : undefined\<close>.\<close>

definition date_or_now :: "int \<Rightarrow> jsval \<Rightarrow> jsval" where
  "date_or_now now v = (if truthy v then JDate (new_Date v) else JDate (time_clip now))"

definition date_or_undefined :: "jsval \<Rightarrow> jsval" where
  "date_or_undefined v = (if truthy v then JDate (new_Date v) else JUndefined)"

text \<open>The item that stands for a record that could not be read.\<close>

definition error_item :: "int \<Rightarrow> string \<Rightarrow> jsval" where
  "error_item now description =
     JObj [(''title'', JStr ''Error parsing item''), (''description'', JStr description),
           (''date'', JDate (time_clip now)), (''link'', JStr [])]"

definition format_raw_item :: "(jsval \<Rightarrow> string option) \<Rightarrow> int \<Rightarrow> string \<Rightarrow> jsval" where
  "format_raw_item textContent now itemJson =
     (case JSON_parse itemJson of
        None \<Rightarrow> error_item now ''Could not parse this item''
      | Some parsedItem \<Rightarrow>
          (case props parsedItem of
             None \<Rightarrow> error_item now ''Could not parse this item''
           | Some p \<Rightarrow>
               (case (stripHtml textContent (js_or (p ''title'') (JStr [])),
                      stripHtml textContent (js_or (p ''description'') (JStr [])),
                      stripHtml textContent (js_or (p ''content'') (JStr []))) of
                  (Some title, Some description, Some content) \<Rightarrow>
                    obj_lit (spread parsedItem)
                      [(''date'', date_or_now now (p ''date'')),
                       (''published'', date_or_undefined (p ''published'')),
                       (''title'', JStr title),
                       (''description'', JStr description),
                       (''content'', JStr content)]
                | _ \<Rightarrow> error_item now ''Could not parse this item'')))"

definition format_html_item :: "int \<Rightarrow> string \<Rightarrow> string \<Rightarrow> jsval" where
  "format_html_item now description itemJson =
     (case JSON_parse itemJson of
        None \<Rightarrow> error_item now description
      | Some parsedItem \<Rightarrow>
          (case props parsedItem of
             None \<Rightarrow> error_item now description
           | Some p \<Rightarrow>
               obj_lit (spread parsedItem)
                 [(''date'', date_or_now now (p ''date'')),
                  (''published'', date_or_undefined (p ''published''))]))"

definition formatItems :: "(jsval \<Rightarrow> string option) \<Rightarrow> int \<Rightarrow> string list \<Rightarrow> ApiFormat \<Rightarrow> jsval list" where
  "formatItems textContent now items format =
     (case format of
        ApiRaw \<Rightarrow> map (format_raw_item textContent now) items
      | ApiHtml \<Rightarrow> map (format_html_item now ''Could not parse this item'') items)"

text \<open>
  The feed document handed to the syndication library, and the three serializers of the
  library, which are a parameter of the model.
\<close>

record feed_doc =
  feed_options :: jsval
  feed_items :: "jsval list"

record feed_library =
  rss2 :: "feed_doc \<Rightarrow> string"
  atom1 :: "feed_doc \<Rightarrow> string"
  json1 :: "feed_doc \<Rightarrow> string"

text \<open>\<open>new Date().getFullYear()\<close>, for a process whose time zone is UTC.\<close>

definition getFullYear :: "int \<Rightarrow> int" where
  "getFullYear now = fst (civil_from_days (now div 86400000))"

definition generateFeed ::
  "(jsval \<Rightarrow> string option) \<Rightarrow> feed_library \<Rightarrow> int \<Rightarrow> string list \<Rightarrow> (string \<times> jsval) list
     \<Rightarrow> FeedFormat \<Rightarrow> string \<times> string" where
  "generateFeed textContent lib now items feedConfig format =
     (let siteUrl = js_string (field feedConfig ''siteUrl'') in
      if format = FRaw
      then (JSON_stringify_2
              (JObj [(''version'', JStr ''https://jsonfeed.org/version/1.1''),
                     (''feed_url'', JStr (siteUrl @ ''/raw.json'')),
                     (''items'', JArr (formatItems textContent now items ApiRaw))]),
            ''application/json; charset=utf-8'')
      else
        (let feed =
               \<lparr>feed_options =
                  JObj [(''id'', field feedConfig ''id''),
                        (''title'', field feedConfig ''title''),
                        (''description'', field feedConfig ''description''),
                        (''link'', field feedConfig ''siteUrl''),
                        (''language'', js_or (field feedConfig ''language'') (JStr ''en'')),
                        (''favicon'', field feedConfig ''favicon''),
                        (''copyright'', js_or (field feedConfig ''copyright'')
                                          (JStr (CHR 0xA9 # '' '' @ show_int (getFullYear now)))),
                        (''updated'', JDate (time_clip now)),
                        (''generator'', JStr ''curate.fun RSS Service''),
                        (''image'', field feedConfig ''image''),
                        (''author'', field feedConfig ''author''),
                        (''feedLinks'',
                           JObj [(''rss'', JStr (siteUrl @ ''/rss.xml'')),
                                 (''atom'', JStr (siteUrl @ ''/atom.xml'')),
                                 (''json'', JStr (siteUrl @ ''/feed.json''))])],
                feed_items = map (format_html_item now ''Could not parse this feed item'') items\<rparr>
         in case format of
              FAtom \<Rightarrow> (atom1 lib feed, ''application/atom+xml; charset=utf-8'')
            | FJson \<Rightarrow> (json1 lib feed, ''application/json; charset=utf-8'')
            | _ \<Rightarrow> (rss2 lib feed, ''application/rss+xml; charset=utf-8'')))"

section \<open>The add-item endpoint (\<open>routes.ts\<close>)\<close>






text \<open>
  The value that \<open>handleCreateFeed\<close> and \<open>handleUpdateConfig\<close> store as
  \<open>maxItems\<close>: the value of the request when it is a number greater than 0,
  otherwise 100.
\<close>

definition checked_maxItems :: "jsval \<Rightarrow> jsval" where
  "checked_maxItems v = (case v of JNum n \<Rightarrow> if n > 0 then JNum n else JNum 100 | _ \<Rightarrow> JNum 100)"




section \<open>Scenarios and auxiliary notions\<close>

subsection \<open>Item ledger\<close>

text \<open>
  A series of \<open>addItem\<close> calls on one feed: the outcome of each call with the store it
  leaves, and the store after the whole series.
\<close>

fun addItem_trace :: "storage \<Rightarrow> string \<Rightarrow> (string \<times> jsval) list list \<Rightarrow> ((error + unit) \<times> storage) list" where
  "addItem_trace st f [] = []"
| "addItem_trace st f (item # items) =
     addItem st f item # addItem_trace (snd (addItem st f item)) f items"

definition addItems :: "storage \<Rightarrow> string \<Rightarrow> (string \<times> jsval) list list \<Rightarrow> storage" where
  "addItems st f items = foldl (\<lambda>s item. snd (addItem s f item)) st items"

text \<open>The store after the \<open>lpush\<close> and the \<open>sadd\<close> of \<open>addItem\<close>.\<close>

definition pushed :: "storage \<Rightarrow> string \<Rightarrow> (string \<times> jsval) list \<Rightarrow> storage" where
  "pushed st f item =
     (let st1 = redis_lpush st (itemsKey f) (JSON_stringify (JObj item))
      in if truthy (field item ''guid'')
         then redis_sadd st1 (guidsKey f) (js_string (field item ''guid'')) else st1)"

text \<open>The feed \<open>f1\<close> with \<open>maxItems = 2\<close> in an empty store, and three items.\<close>

definition config_f1 :: "(string \<times> jsval) list" where
  "config_f1 =
     [(''id'', JStr ''f1''), (''title'', JStr ''T''), (''description'', JStr ''D''),
      (''siteUrl'', JStr ''https://x''), (''maxItems'', JNum 2)]"

definition store_f1 :: storage where
  "store_f1 = snd (createFeed Map.empty 0 config_f1)"

definition item_A :: "(string \<times> jsval) list" where
  "item_A = [(''guid'', JStr ''A''), (''link'', JStr ''https://x/a''), (''content'', JStr ''a'')]"

definition item_B :: "(string \<times> jsval) list" where
  "item_B = [(''guid'', JStr ''B''), (''link'', JStr ''https://x/b''), (''content'', JStr ''b'')]"

definition item_C :: "(string \<times> jsval) list" where
  "item_C = [(''guid'', JStr ''C''), (''link'', JStr ''https://x/c''), (''content'', JStr ''c'')]"

subsection \<open>Rate limiting\<close>

text \<open>No record of the client: neither in the mirror nor in the store, and no timer.\<close>

definition fresh_client :: "mock_redis limiter_state \<Rightarrow> string \<Rightarrow> bool" where
  "fresh_client st key =
     (memCache st key = None \<and> store (remote st) key = None
      \<and> store (remote st) (expiryKey key) = None \<and> timers (remote st) = [])"

text \<open>
  The state inside the window opened at \<open>t0\<close>, after \<open>j\<close> requests of the client: the
  mirror holds \<open>j\<close>, the counter of the store holds 1.
\<close>

definition in_window :: "mock_redis limiter_state \<Rightarrow> string \<Rightarrow> int \<Rightarrow> int \<Rightarrow> bool" where
  "in_window st key t0 j =
     (memCache st key = Some \<lparr>count = j, expires = t0 + windowMs\<rparr>
      \<and> store (remote st) key = Some (RStr ''1'')
      \<and> store (remote st) (expiryKey key) = Some (RStr (show_int (t0 + windowMs)))
      \<and> timers (remote st) = [(t0 + windowMs, key)])"

text \<open>A request is admitted when \<open>next()\<close> was called, rejected when 429 was thrown.\<close>

definition admitted :: "'r outcome \<Rightarrow> bool" where
  "admitted out = (1 \<le> next_calls out)"

definition rejected :: "'r outcome \<Rightarrow> bool" where
  "rejected out = (next_calls out = 0 \<and> thrown out = Some (HTTPException 429))"

fun final_state :: "'r limiter_state \<Rightarrow> 'r outcome list \<Rightarrow> 'r limiter_state" where
  "final_state st [] = st"
| "final_state st (out # outs) = final_state (state_after out) outs"

text \<open>The batched call failed: it threw, or its result is not an array of two.\<close>

fun exec_failed :: "exec_result \<Rightarrow> bool" where
  "exec_failed ExecThrows = True"
| "exec_failed (ExecResults None) = True"
| "exec_failed (ExecResults (Some results)) = (length results < 2)"

text \<open>The mirror has no live entry for the key, so the store is consulted.\<close>

definition cache_miss :: "'r limiter_state \<Rightarrow> string \<Rightarrow> int \<Rightarrow> bool" where
  "cache_miss st key now =
     (case memCache st key of None \<Rightarrow> True | Some e \<Rightarrow> expires e \<le> now)"

definition get_request :: request where
  "get_request =
     \<lparr>req_method = ''GET'', cf_connecting_ip = None,
      x_forwarded_for = Some ''10.0.0.1, 10.0.0.2'', x_real_ip = None\<rparr>"

definition empty_limiter :: "mock_redis limiter_state" where
  "empty_limiter = \<lparr>memCache = Map.empty, remote = \<lparr>store = Map.empty, timers = []\<rparr>\<rparr>"

text \<open>A store client whose batched call always throws.\<close>

definition failing_client :: "unit client" where
  "failing_client =
     \<lparr>pipeline_exec = (\<lambda>r now key. (ExecThrows, r)),
      expire_op = (\<lambda>r now key seconds. (False, r))\<rparr>"

subsection \<open>Rendering\<close>





text \<open>
  A stored record whose raw rendering does not read the clock: it parses, it carries a
  date, and the HTML parser accepts its three text fields.
\<close>

definition clock_free :: "(jsval \<Rightarrow> string option) \<Rightarrow> string \<Rightarrow> bool" where
  "clock_free textContent itemJson =
     (case JSON_parse itemJson of
        None \<Rightarrow> False
      | Some parsedItem \<Rightarrow>
          (case props parsedItem of
             None \<Rightarrow> False
           | Some p \<Rightarrow>
               truthy (p ''date'')
               \<and> stripHtml textContent (js_or (p ''title'') (JStr [])) \<noteq> None
               \<and> stripHtml textContent (js_or (p ''description'') (JStr [])) \<noteq> None
               \<and> stripHtml textContent (js_or (p ''content'') (JStr [])) \<noteq> None))"

text \<open>
  Stand-ins for the libraries, to run the model on examples: a tag stripper that drops
  what stands between \<open><\<close> and \<open>>\<close> (for the HTML parser and for the sanitizer), and
  serializers that write the feed document as JSON.
\<close>

fun strip_tags :: "bool \<Rightarrow> string \<Rightarrow> string" where
  "strip_tags inside [] = []"
| "strip_tags inside (c # cs) =
     (if c = CHR ''<'' then strip_tags True cs
      else if inside then strip_tags (c \<noteq> CHR ''>'') cs
      else c # strip_tags False cs)"

definition plain_text :: "jsval \<Rightarrow> string option" where
  "plain_text v = (case v of JStr s \<Rightarrow> Some (strip_tags False s) | _ \<Rightarrow> None)"


definition doc_text :: "feed_doc \<Rightarrow> string" where
  "doc_text d = JSON_stringify (JObj [(''options'', feed_options d), (''items'', JArr (feed_items d))])"

definition standin_feed :: feed_library where
  "standin_feed = \<lparr>rss2 = doc_text, atom1 = doc_text, json1 = doc_text\<rparr>"

definition stored_hi :: string where
  "stored_hi =
     JSON_stringify (JObj [(''guid'', JStr ''g1''), (''title'', JStr ''T''),
                           (''content'', JStr ''<b>hi</b>''), (''link'', JStr ''https://x/1''),
                           (''date'', JStr ''2025-01-01T00:00:00.000Z'')])"


section \<open>Properties of the item ledger\<close>

lemma keys_distinct [simp]:
  "feedKey f \<noteq> itemsKey f" "feedKey f \<noteq> guidsKey f" "itemsKey f \<noteq> guidsKey f"
  "itemsKey f \<noteq> feedKey f" "guidsKey f \<noteq> feedKey f" "guidsKey f \<noteq> itemsKey f"
  by (simp_all add: feedKey_def itemsKey_def guidsKey_def)

lemma js_slice_front: "0 \<le> e \<Longrightarrow> js_slice xs 0 (Some e) = take (nat e) xs"
  by (auto simp: js_slice_def Let_def min_def)



lemma lpush_other: "k' \<noteq> k \<Longrightarrow> redis_lpush st k v k' = st k'"
  by (auto simp: redis_lpush_def split: option.splits rvalue.splits)



lemma ltrim_other: "k' \<noteq> k \<Longrightarrow> redis_ltrim st k a b k' = st k'"
  by (auto simp: redis_ltrim_def Let_def split: option.splits)




text \<open>The list after the trim is never longer than a positive bound.\<close>

lemma llen_ltrim: "0 < n \<Longrightarrow> redis_llen (redis_ltrim s k 0 (Some (n - 1))) k \<le> n"
  by (auto simp: redis_llen_def redis_ltrim_def array_at_def js_slice_front
      split: option.splits rvalue.splits)

text \<open>
  With a positive \<open>maxItems\<close> a successful call is: push, add the guid, trim. The
  clean-up of the guid set is not reached, because the length is read after the trim.
\<close>

lemma addItem_positive:
  assumes "addItem st f item = (Inr (), st')"
    and "getFeedConfig st f = Inr config"
    and "get_prop config ''maxItems'' = Some (JNum n)" and "0 < n"
  shows "st' = redis_ltrim (pushed st f item) (itemsKey f) 0 (Some (n - 1))"
proof -
  have "redis_llen (redis_ltrim (pushed st f item) (itemsKey f) 0 (Some (n - 1))) (itemsKey f) \<le> n"
    using \<open>0 < n\<close> by (rule llen_ltrim)
  with assms show ?thesis
    by (auto simp: addItem_def Let_def pushed_def
        split: if_splits sum.splits error.splits bool.splits)
qed




text \<open>The endpoints that write a configuration store a positive number as \<open>maxItems\<close>.\<close>

lemma checked_maxItems_positive: "\<exists>n. checked_maxItems v = JNum n \<and> 0 < n"
  by (cases v) (simp_all add: checked_maxItems_def)





text \<open>
  With a positive \<open>maxItems\<close> a successful call never removes a member of the guid
  set, whatever it evicts from the list.
\<close>

lemma sadd_keeps_member:
  "redis_sismember st k g = 1 \<Longrightarrow> redis_sismember (redis_sadd st k m) k g = 1"
  by (auto simp: redis_sismember_def redis_sadd_def array_at_def absent_or_empty_def Let_def
      split: option.splits rvalue.splits if_splits)

lemma addItem_never_prunes:
  assumes "addItem st f item = (Inr (), st')"
    and "getFeedConfig st f = Inr config"
    and "get_prop config ''maxItems'' = Some (JNum n)" and "0 < n"
    and "redis_sismember st (guidsKey f) g = 1"
  shows "redis_sismember st' (guidsKey f) g = 1"
proof -
  have "st' = redis_ltrim (pushed st f item) (itemsKey f) 0 (Some (n - 1))"
    using assms(1-4) by (rule addItem_positive)
  then have "st' (guidsKey f) = pushed st f item (guidsKey f)"
    by (simp add: ltrim_other)
  moreover have "redis_sismember (pushed st f item) (guidsKey f) g = 1"
  proof -
    have "redis_sismember (redis_lpush st (itemsKey f) (JSON_stringify (JObj item))) (guidsKey f) g = 1"
      using assms(5) by (simp add: redis_sismember_def array_at_def lpush_other)
    then show ?thesis by (simp add: pushed_def Let_def sadd_keeps_member)
  qed
  ultimately show ?thesis by (simp add: redis_sismember_def array_at_def)
qed

text \<open>
  Outside the data model: with \<open>maxItems = 0\<close> the trim keeps every item
  (\<open>ltrim 0 -1\<close>), so the list grows beyond the bound.
\<close>

lemma addItem_zero_bound:
  "fst (addItem (snd (createFeed Map.empty 0 [(''id'', JStr ''z''), (''maxItems'', JNum 0)])) ''z'' item_A)
     = Inr ()
   \<and> redis_llen (snd (addItem (snd (createFeed Map.empty 0 [(''id'', JStr ''z''), (''maxItems'', JNum 0)]))
        ''z'' item_A)) (itemsKey ''z'') = 1"
  by code_simp

text \<open>
  Claim C2. The scenario of the claim, run on the code: feed \<open>f1\<close> with
  \<open>maxItems = 2\<close>, three successful calls with the guids A, B, C. The stored list is
  \<open>[C, B]\<close>, as the claim says, but the guid of A is still a member of the guid set,
  and a fourth call with the evicted item A is refused as a duplicate.
\<close>

theorem addItem_evicted_guid_stays:
  "map fst (addItem_trace store_f1 ''f1'' [item_A, item_B, item_C]) = [Inr (), Inr (), Inr ()]
   \<and> redis_lrange (addItems store_f1 ''f1'' [item_A, item_B, item_C]) (itemsKey ''f1'') 0 (- 1)
       = [JSON_stringify (JObj item_C), JSON_stringify (JObj item_B)]
   \<and> redis_sismember (addItems store_f1 ''f1'' [item_A, item_B, item_C]) (guidsKey ''f1'') ''A'' = 1
   \<and> fst (addItem (addItems store_f1 ''f1'' [item_A, item_B, item_C]) ''f1'' item_A)
       = Inl (DuplicateItemError ''A'')"
  by code_simp

text \<open>
  Claim C3. For a feed that exists and an item whose guid is set (truthy) and is a
  member of the guid set of the feed, \<open>addItem\<close> fails with \<open>DuplicateItemError\<close> and
  leaves the whole store as it was: the item list and the guid set are unchanged.
\<close>

theorem addItem_duplicate_no_mutation:
  assumes "feedExists st f" and "truthy (field item ''guid'')"
    and "redis_sismember st (guidsKey f) (js_string (field item ''guid'')) = 1"
  shows "addItem st f item = (Inl (DuplicateItemError (js_string (field item ''guid''))), st)"
  using assms by (simp add: addItem_def itemExists_def Let_def)

theorem addItem_duplicate_no_mutation_witness:
  "feedExists (addItems store_f1 ''f1'' [item_A]) ''f1''
   \<and> redis_sismember (addItems store_f1 ''f1'' [item_A]) (guidsKey ''f1'') ''A'' = 1
   \<and> addItem (addItems store_f1 ''f1'' [item_A]) ''f1'' item_A
       = (Inl (DuplicateItemError ''A''), addItems store_f1 ''f1'' [item_A])"
proof -
  have g: "js_string (field item_A ''guid'') = ''A''" by (simp add: item_A_def field_def)
  have e: "feedExists (addItems store_f1 ''f1'' [item_A]) ''f1''" by code_simp
  have t: "truthy (field item_A ''guid'')" by (simp add: item_A_def field_def)
  have m: "redis_sismember (addItems store_f1 ''f1'' [item_A]) (guidsKey ''f1'')
             (js_string (field item_A ''guid'')) = 1"
    unfolding g by code_simp
  from addItem_duplicate_no_mutation [OF e t m] e m show ?thesis by (simp add: g)
qed

section \<open>Properties of the feed registry\<close>

text \<open>
  Claim C7, as the code has it. Without an id (absent or empty) \<open>createFeed\<close> throws a
  \<open>StorageError\<close> (status 500), not a configuration error, and writes nothing. With an
  id it writes the record, with the configuration and the creation time, under the key
  of the feed, whatever the store held there before, and returns the id.
\<close>

theorem createFeed_upsert:
  "createFeed st now config =
     (if truthy (field config ''id'')
      then (Inr (js_string (field config ''id'')),
            st(feedKey (js_string (field config ''id'')) \<mapsto>
                 RStr (JSON_stringify (JObj [(''feedConfig'', JObj config),
                                            (''createdAt'', JStr (toISOString now))]))))
      else (Inl (StorageError ''Feed ID is required when creating a feed''), st))"
  by (simp add: createFeed_def redis_set_def Let_def)

text \<open>
  The claim as it was stated fails: a configuration without an id is refused with a
  \<open>StorageError\<close>, whose status is 500; a \<open>FeedConfigurationError\<close> would carry 400.
\<close>

theorem createFeed_missing_id_storage_error:
  "fst (createFeed Map.empty 0 [(''title'', JStr ''T'')])
     = Inl (StorageError ''Feed ID is required when creating a feed'')
   \<and> statusCode (StorageError ''Feed ID is required when creating a feed'') = 500
   \<and> statusCode (FeedConfigurationError ''Feed ID is required when creating a feed'') = 400"
  by (simp add: createFeed_def field_def)

section \<open>Properties of the rate limiter\<close>

lemma expiryKey_neq [simp]: "expiryKey k \<noteq> k" "k \<noteq> expiryKey k"
  by (simp_all add: expiryKey_def)

lemma next_in_try_calls [simp]: "Suc 0 \<le> fst (next_in_try h)"
  by (auto simp: next_in_try_def next_in_catch_def split: option.splits exn.splits)

lemma next_in_try_thrown [simp]: "snd (next_in_try h) = h"
  by (auto simp: next_in_try_def next_in_catch_def split: option.splits exn.splits)

text \<open>
  Claim C4. For a GET request that finds no live entry in the mirror, whatever the store
  client: when the batched call throws, returns no result array, or returns fewer than
  two results, \<open>next()\<close> is called (the request is admitted) and the only exception that
  can leave the middleware is the one of the downstream handler itself.
\<close>

theorem rateLimiter_fail_open:
  assumes "req_method req = ''GET''"
    and "cache_miss st (rate_key req) now"
    and "exec_failed (fst (pipeline_exec cl (remote st) now (rate_key req)))"
  shows "admitted (rateLimiter cl handler now req st)
    \<and> thrown (rateLimiter cl handler now req st) = handler"
proof (cases "pipeline_exec cl (remote st) now (rate_key req)")
  case (Pair res r)
  have miss: "(case memCache st (rate_key req) of
                 None \<Rightarrow> None
               | Some e \<Rightarrow> if expires e > now then Some e else None) = None"
    using assms(2) by (auto simp: cache_miss_def split: option.splits)
  from assms(3) Pair have "exec_failed res" by simp
  then show ?thesis
    using assms(1) Pair miss
    by (cases res rule: exec_failed.cases)
       (simp_all add: rateLimiter_def Let_def admitted_def fail_open_def next_in_catch_def)
qed

theorem rateLimiter_fail_open_witness:
  "exec_failed (fst (pipeline_exec failing_client () 0 (rate_key get_request)))
   \<and> admitted (rateLimiter failing_client None 0 get_request \<lparr>memCache = Map.empty, remote = ()\<rparr>)
   \<and> thrown (rateLimiter failing_client None 0 get_request \<lparr>memCache = Map.empty, remote = ()\<rparr>) = None"
proof -
  have g: "req_method get_request = ''GET''" by (simp add: get_request_def)
  have m: "cache_miss \<lparr>memCache = Map.empty, remote = ()\<rparr> (rate_key get_request) 0"
    by (simp add: cache_miss_def)
  have e: "exec_failed (fst (pipeline_exec failing_client
             (remote \<lparr>memCache = Map.empty, remote = ()\<rparr>) 0 (rate_key get_request)))"
    by (simp add: failing_client_def)
  from rateLimiter_fail_open [OF g m e, of None] e show ?thesis by simp
qed

text \<open>The three kinds of request of a client inside and after a window.\<close>

lemma first_request:
  assumes "fresh_client st key" "req_method req = ''GET''" "rate_key req = key"
  shows "in_window (state_after (rateLimiter mock_client h t0 req (st\<lparr>remote := elapse t0 (remote st)\<rparr>))) key t0 1
    \<and> admitted (rateLimiter mock_client h t0 req (st\<lparr>remote := elapse t0 (remote st)\<rparr>))"
  using assms
  by (auto simp: fresh_client_def in_window_def rateLimiter_def elapse_def mock_client_def
      mock_pipeline_exec_def mock_incr_def mock_ttl_def mock_expire_def Let_def admitted_def
      admit_or_reject_def rate_max_def windowMs_def)

lemma later_request:
  assumes "in_window st key t0 j" "req_method req = ''GET''" "rate_key req = key" "now < t0 + windowMs"
  shows "in_window (state_after (rateLimiter mock_client h now req (st\<lparr>remote := elapse now (remote st)\<rparr>))) key t0 (j + 1)
    \<and> (if j + 1 > rate_max
        then rejected (rateLimiter mock_client h now req (st\<lparr>remote := elapse now (remote st)\<rparr>))
        else admitted (rateLimiter mock_client h now req (st\<lparr>remote := elapse now (remote st)\<rparr>)))"
  using assms
  by (auto simp: in_window_def rateLimiter_def elapse_def fire_timer_def Let_def admitted_def
      rejected_def admit_or_reject_def)

lemma reset_request:
  assumes "in_window st key t0 j" "req_method req = ''GET''" "rate_key req = key" "t0 + windowMs \<le> now"
  shows "in_window (state_after (rateLimiter mock_client h now req (st\<lparr>remote := elapse now (remote st)\<rparr>))) key now 1
    \<and> admitted (rateLimiter mock_client h now req (st\<lparr>remote := elapse now (remote st)\<rparr>))"
  using assms
  by (auto simp: in_window_def rateLimiter_def elapse_def fire_timer_def mock_client_def
      mock_pipeline_exec_def mock_incr_def mock_ttl_def mock_expire_def Let_def admitted_def
      admit_or_reject_def rate_max_def windowMs_def)

lemma serve_append:
  "serve h st (xs @ ys) = serve h st xs @ serve h (final_state st (serve h st xs)) ys"
  by (induction xs arbitrary: st) (auto simp: Let_def)

lemma serve_in_window:
  assumes "req_method req = ''GET''" "rate_key req = key"
    and "in_window st key t0 j" "\<forall>t \<in> set ts. t < t0 + windowMs"
  shows "length (serve h st (map (\<lambda>t. (t, req)) ts)) = length ts
    \<and> (\<forall>i < length ts. if j + int i + 1 > rate_max
          then rejected (serve h st (map (\<lambda>t. (t, req)) ts) ! i)
          else admitted (serve h st (map (\<lambda>t. (t, req)) ts) ! i))
    \<and> in_window (final_state st (serve h st (map (\<lambda>t. (t, req)) ts))) key t0 (j + int (length ts))"
  using assms(3,4)
proof (induction ts arbitrary: st j)
  case Nil
  then show ?case by simp
next
  case (Cons t ts)
  let ?out = "rateLimiter mock_client h t req (st\<lparr>remote := elapse t (remote st)\<rparr>)"
  have step: "in_window (state_after ?out) key t0 (j + 1)"
    and verdict: "if j + 1 > rate_max then rejected ?out else admitted ?out"
    using later_request[OF Cons.prems(1) assms(1,2), of t h] Cons.prems(2) by simp_all
  have rest: "\<forall>t \<in> set ts. t < t0 + windowMs" using Cons.prems(2) by simp
  note IH = Cons.IH[OF step rest]
  have len: "length (serve h st (map (\<lambda>t. (t, req)) (t # ts))) = length (t # ts)"
    using IH by (simp add: Let_def)
  have fin: "in_window (final_state st (serve h st (map (\<lambda>t. (t, req)) (t # ts)))) key t0
               (j + int (length (t # ts)))"
  proof -
    have "j + 1 + int (length ts) = j + int (length (t # ts))" by simp
    with IH show ?thesis by (simp add: Let_def)
  qed
  have each: "if j + int i + 1 > rate_max
          then rejected (serve h st (map (\<lambda>t. (t, req)) (t # ts)) ! i)
          else admitted (serve h st (map (\<lambda>t. (t, req)) (t # ts)) ! i)"
    if "i < length (t # ts)" for i
  proof (cases i)
    case 0
    then show ?thesis using verdict by (simp add: Let_def)
  next
    case (Suc k)
    then have "k < length ts" using that by simp
    with IH have "if j + 1 + int k + 1 > rate_max
          then rejected (serve h (state_after ?out) (map (\<lambda>t. (t, req)) ts) ! k)
          else admitted (serve h (state_after ?out) (map (\<lambda>t. (t, req)) ts) ! k)"
      by blast
    moreover have "j + 1 + int k + 1 = j + int i + 1" using Suc by simp
    ultimately show ?thesis using Suc by (simp add: Let_def)
  qed
  from len fin each show ?case by blast
qed

text \<open>
  Claim C5. A client without a record sends GET requests to a process backed by the
  in-memory store: one at \<open>t0\<close>, which opens the window, and 100 more before
  \<open>t0 + 5 min\<close>. The first 100 requests are admitted and the 101st is rejected with
  status 429. A request at or after \<open>t0 + 5 min\<close> is admitted, and the count of the
  client is 1 again.
\<close>

theorem rateLimiter_window_limit:
  assumes "fresh_client st (rate_key req)" and "req_method req = ''GET''"
    and "length ts = 100" and "\<forall>t \<in> set ts. t < t0 + windowMs" and "t0 + windowMs \<le> t1"
  shows "(\<forall>i < 100. admitted (serve handler st (map (\<lambda>t. (t, req)) (t0 # ts @ [t1])) ! i))
    \<and> rejected (serve handler st (map (\<lambda>t. (t, req)) (t0 # ts @ [t1])) ! 100)
    \<and> admitted (serve handler st (map (\<lambda>t. (t, req)) (t0 # ts @ [t1])) ! 101)
    \<and> memCache (state_after (serve handler st (map (\<lambda>t. (t, req)) (t0 # ts @ [t1])) ! 101)) (rate_key req)
        = Some \<lparr>count = 1, expires = t1 + windowMs\<rparr>
    \<and> store (remote (state_after (serve handler st (map (\<lambda>t. (t, req)) (t0 # ts @ [t1])) ! 101))) (rate_key req)
        = Some (RStr ''1'')"
proof -
  let ?key = "rate_key req"
  let ?out0 = "rateLimiter mock_client handler t0 req (st\<lparr>remote := elapse t0 (remote st)\<rparr>)"
  let ?s1 = "state_after ?out0"
  let ?mid = "serve handler ?s1 (map (\<lambda>t. (t, req)) ts)"
  let ?s2 = "final_state ?s1 ?mid"
  let ?out1 = "rateLimiter mock_client handler t1 req (?s2\<lparr>remote := elapse t1 (remote ?s2)\<rparr>)"
  have first: "in_window ?s1 ?key t0 1" "admitted ?out0"
    using first_request[OF assms(1,2) refl, of handler t0] by simp_all
  have mid: "length ?mid = length ts"
    "\<forall>i < length ts. if 1 + int i + 1 > rate_max then rejected (?mid ! i) else admitted (?mid ! i)"
    "in_window ?s2 ?key t0 (1 + int (length ts))"
    using serve_in_window[OF assms(2) refl first(1) assms(4), of handler] by blast+
  have last: "in_window (state_after ?out1) ?key t1 1" "admitted ?out1"
    using reset_request[OF mid(3) assms(2) refl assms(5), of handler] by simp_all
  have outs: "serve handler st (map (\<lambda>t. (t, req)) (t0 # ts @ [t1])) = ?out0 # ?mid @ [?out1]"
    by (simp add: Let_def serve_append)
  have a: "admitted ((?out0 # ?mid @ [?out1]) ! i)" if "i < 100" for i
  proof (cases i)
    case 0
    then show ?thesis using first(2) by simp
  next
    case (Suc k)
    then have k: "k < length ts" "k < 99" using that assms(3) by simp_all
    then have "admitted (?mid ! k)" using mid(2) by (auto simp: rate_max_def)
    then show ?thesis using Suc k mid(1) by (simp add: nth_append)
  qed
  have r: "rejected ((?out0 # ?mid @ [?out1]) ! 100)"
  proof -
    have "rejected (?mid ! 99)" using mid(2) assms(3) by (auto simp: rate_max_def)
    moreover have "(?out0 # ?mid @ [?out1]) ! 100 = ?mid ! 99"
      using mid(1) assms(3) by (simp add: nth_append)
    ultimately show ?thesis by simp
  qed
  have l: "(?out0 # ?mid @ [?out1]) ! 101 = ?out1"
    using mid(1) assms(3) by (simp add: nth_append)
  have c: "memCache (state_after ?out1) ?key = Some \<lparr>count = 1, expires = t1 + windowMs\<rparr>"
    "store (remote (state_after ?out1)) ?key = Some (RStr ''1'')"
    using last(1) by (simp_all add: in_window_def)
  show ?thesis unfolding outs using a r l last(2) c by simp
qed

lemma empty_limiter_fresh: "fresh_client empty_limiter key"
  by (simp add: fresh_client_def empty_limiter_def)

theorem rateLimiter_window_limit_witness:
  "admitted (serve None empty_limiter (map (\<lambda>t. (t, get_request)) (0 # replicate 100 5 @ [300000])) ! 0)
   \<and> admitted (serve None empty_limiter (map (\<lambda>t. (t, get_request)) (0 # replicate 100 5 @ [300000])) ! 99)
   \<and> rejected (serve None empty_limiter (map (\<lambda>t. (t, get_request)) (0 # replicate 100 5 @ [300000])) ! 100)
   \<and> admitted (serve None empty_limiter (map (\<lambda>t. (t, get_request)) (0 # replicate 100 5 @ [300000])) ! 101)
   \<and> memCache (state_after (serve None empty_limiter
         (map (\<lambda>t. (t, get_request)) (0 # replicate 100 5 @ [300000])) ! 101)) (rate_key get_request)
       = Some \<lparr>count = 1, expires = 600000\<rparr>
   \<and> store (remote (state_after (serve None empty_limiter
         (map (\<lambda>t. (t, get_request)) (0 # replicate 100 5 @ [300000])) ! 101))) (rate_key get_request)
       = Some (RStr ''1'')"
proof -
  have g: "req_method get_request = ''GET''" by (simp add: get_request_def)
  have n: "length (replicate 100 (5::int)) = 100" by simp
  have w: "\<forall>t \<in> set (replicate 100 (5::int)). t < 0 + windowMs" by (simp add: windowMs_def)
  have e: "(0::int) + windowMs \<le> 300000" by (simp add: windowMs_def)
  from rateLimiter_window_limit [OF empty_limiter_fresh g n w e, of None]
  show ?thesis by (simp add: windowMs_def)
qed

lemma window_state:
  assumes "fresh_client st (rate_key req)" and "req_method req = ''GET''"
    and "\<forall>t \<in> set ts. t < t0 + windowMs"
  shows "in_window (final_state st (serve handler st (map (\<lambda>t. (t, req)) (t0 # ts))))
           (rate_key req) t0 (1 + int (length ts))"
proof -
  let ?out0 = "rateLimiter mock_client handler t0 req (st\<lparr>remote := elapse t0 (remote st)\<rparr>)"
  have "in_window (state_after ?out0) (rate_key req) t0 1"
    using first_request[OF assms(1,2) refl, of handler t0] by simp
  from serve_in_window[OF assms(2) refl this assms(3), of handler]
  have "in_window (final_state (state_after ?out0)
          (serve handler (state_after ?out0) (map (\<lambda>t. (t, req)) ts))) (rate_key req) t0
          (1 + int (length ts))"
    by blast
  then show ?thesis by (simp add: Let_def)
qed

text \<open>
  Claim C9, as the code has it. Inside a window the mirror counts every request of the
  client, and the counter of the store is incremented only by the request that opens
  the window: after that request and \<open>n\<close> more, the mirror holds \<open>n + 1\<close> and the
  counter of the store holds 1.
\<close>

theorem mirror_counts_requests:
  assumes "fresh_client st (rate_key req)" and "req_method req = ''GET''"
    and "\<forall>t \<in> set ts. t < t0 + windowMs"
  shows "memCache (final_state st (serve handler st (map (\<lambda>t. (t, req)) (t0 # ts)))) (rate_key req)
           = Some \<lparr>count = int (length ts) + 1, expires = t0 + windowMs\<rparr>
    \<and> store (remote (final_state st (serve handler st (map (\<lambda>t. (t, req)) (t0 # ts))))) (rate_key req)
           = Some (RStr ''1'')"
  using window_state [OF assms, of handler] by (simp add: in_window_def add.commute)

theorem mirror_counts_requests_witness:
  "memCache (final_state empty_limiter
       (serve None empty_limiter (map (\<lambda>t. (t, get_request)) (1000 # [2000, 3000, 4000]))))
     (rate_key get_request) = Some \<lparr>count = 4, expires = 301000\<rparr>
   \<and> store (remote (final_state empty_limiter
       (serve None empty_limiter (map (\<lambda>t. (t, get_request)) (1000 # [2000, 3000, 4000])))))
     (rate_key get_request) = Some (RStr ''1'')"
proof -
  have g: "req_method get_request = ''GET''" by (simp add: get_request_def)
  have w: "\<forall>t \<in> set [2000, 3000, 4000 :: int]. t < 1000 + windowMs" by (simp add: windowMs_def)
  from mirror_counts_requests [OF empty_limiter_fresh g w, of None]
  show ?thesis by (simp add: windowMs_def)
qed

text \<open>
  The claim as it was stated fails: after three requests of one client inside a window
  the mirror holds 3 and the counter of the store holds 1.
\<close>

theorem mirror_ahead_of_store:
  "memCache (final_state empty_limiter
       (serve None empty_limiter (map (\<lambda>t. (t, get_request)) [1000, 2000, 3000])))
     (rate_key get_request) = Some \<lparr>count = 3, expires = 301000\<rparr>
   \<and> store (remote (final_state empty_limiter
       (serve None empty_limiter (map (\<lambda>t. (t, get_request)) [1000, 2000, 3000]))))
     (rate_key get_request) = Some (RStr ''1'')"
proof -
  have g: "req_method get_request = ''GET''" by (simp add: get_request_def)
  have w: "\<forall>t \<in> set [2000, 3000 :: int]. t < 1000 + windowMs" by (simp add: windowMs_def)
  from window_state [OF empty_limiter_fresh g w, of None]
  show ?thesis by (simp add: in_window_def windowMs_def)
qed

section \<open>Properties of the renderer\<close>
















text \<open>The raw rendering of a record that is \<open>clock_free\<close> does not depend on the clock.\<close>

lemma format_raw_item_clock_free:
  assumes "clock_free tc s"
  shows "format_raw_item tc now1 s = format_raw_item tc now2 s"
  using assms
  by (auto simp: clock_free_def format_raw_item_def date_or_now_def split: option.splits)

text \<open>
  Claim C6, as the code has it. The renderer reads the clock: an undated or unreadable
  record is given the current time as its date. For the format raw, when every stored
  record parses, carries a date and is accepted by the HTML parser, two invocations with
  the same arguments return the same text and content type, whatever the two clock
  readings are.
\<close>

theorem generateFeed_raw_clock_free:
  assumes "\<forall>s \<in> set items. clock_free textContent s"
  shows "generateFeed textContent lib now1 items feedConfig FRaw
         = generateFeed textContent lib now2 items feedConfig FRaw"
proof -
  have eq: "formatItems textContent now1 items ApiRaw = formatItems textContent now2 items ApiRaw"
    using assms by (simp add: formatItems_def format_raw_item_clock_free)
  show ?thesis by (simp add: generateFeed_def Let_def eq)
qed

lemma stored_hi_clock_free: "clock_free plain_text stored_hi"
  by code_simp

theorem generateFeed_raw_clock_free_witness:
  "clock_free plain_text stored_hi
   \<and> generateFeed plain_text standin_feed 0 [stored_hi] config_f1 FRaw
       = generateFeed plain_text standin_feed 1000 [stored_hi] config_f1 FRaw"
  using generateFeed_raw_clock_free [of "[stored_hi]" plain_text standin_feed 0 config_f1 1000]
    stored_hi_clock_free
  by simp

text \<open>
  The claim as it was stated fails: the same arguments, with a record that does not
  parse, rendered at two clock readings give two different texts.
\<close>

theorem generateFeed_reads_clock:
  "fst (generateFeed plain_text standin_feed 0 [''not json''] config_f1 FRaw)
   \<noteq> fst (generateFeed plain_text standin_feed 1000 [''not json''] config_f1 FRaw)"
  by code_simp

section \<open>Properties of the add-item endpoint\<close>










end
